theory Spec2Isabelle
  imports Main
begin

section \<open>Strings\<close>

text \<open>
  A JavaScript string is a \<^typ>\<open>string\<close>: the list of its characters, a character outside
  ASCII standing as its UTF-8 bytes. The worker only ever inspects ASCII characters
  (\<open>/\<close>, \<open>.\<close>, the prefix \<open>http://\<close>, the character classes of its two regular
  expressions), so this reading of a string agrees with the engine's on every test the code
  makes.
\<close>

definition lower_char :: "char \<Rightarrow> char" where
  "lower_char c =
     (case map_of (zip ''ABCDEFGHIJKLMNOPQRSTUVWXYZ'' ''abcdefghijklmnopqrstuvwxyz'') c of
        None \<Rightarrow> c
      | Some d \<Rightarrow> d)"

definition lower :: "string \<Rightarrow> string" where
  "lower s = map lower_char s"

text \<open>\<open>s.startsWith(p)\<close>, case-sensitive.\<close>

definition startsWith :: "string \<Rightarrow> string \<Rightarrow> bool" where
  "startsWith s p = (take (length p) s = p)"

text \<open>\<open>s.split(c)\<close> for a one-character separator; \<open>''''.split(c)\<close> is \<open>['''']\<close>.\<close>

fun split_on :: "char \<Rightarrow> string \<Rightarrow> string list" where
  "split_on c [] = [[]]"
| "split_on c (x # xs) =
     (if x = c then [] # split_on c xs
      else (case split_on c xs of
              [] \<Rightarrow> [[x]]
            | y # ys \<Rightarrow> (x # y) # ys))"

text \<open>The values of a repeated header are joined by a comma and a space.\<close>

fun join :: "string list \<Rightarrow> string" where
  "join [] = []"
| "join [v] = v"
| "join (v # w # vs) = v @ '', '' @ join (w # vs)"

text \<open>A number inside a template literal: its decimal digits.\<close>

function show_nat :: "nat \<Rightarrow> string" where
  "show_nat n =
     (if n < 10 then [''0123456789'' ! n]
      else show_nat (n div 10) @ [''0123456789'' ! (n mod 10)])"
  by pat_completeness auto
termination
  by (relation "measure id") auto

declare show_nat.simps [simp del]

section \<open>Headers, requests, responses\<close>

text \<open>
  A \<open>Headers\<close> object is its header list. Names are compared without regard to ASCII
  case; \<open>get\<close> joins the values stored under a name, \<open>set\<close> removes every entry of the
  name and stores the new one.
\<close>

type_synonym headers = "(string \<times> string) list"

definition Headers_values :: "headers \<Rightarrow> string \<Rightarrow> string list" where
  "Headers_values hs name = map snd (filter (\<lambda>kv. lower (fst kv) = lower name) hs)"

definition Headers_get :: "headers \<Rightarrow> string \<Rightarrow> string option" where
  "Headers_get hs name =
     (case Headers_values hs name of [] \<Rightarrow> None | v # vs \<Rightarrow> Some (join (v # vs)))"

definition Headers_has :: "headers \<Rightarrow> string \<Rightarrow> bool" where
  "Headers_has hs name = (Headers_values hs name \<noteq> [])"

definition Headers_set :: "headers \<Rightarrow> string \<Rightarrow> string \<Rightarrow> headers" where
  "Headers_set hs name v = filter (\<lambda>kv. lower (fst kv) \<noteq> lower name) hs @ [(name, v)]"

record request =
  req_method :: string
  req_url :: string
  req_headers :: headers
  req_body :: "string option"

record response =
  res_status :: nat
  res_statusText :: string
  res_headers :: headers
  res_body :: "string option"

text \<open>\<open>response.ok\<close>: the status is in the range 200 to 299.\<close>

definition ok :: "response \<Rightarrow> bool" where
  "ok r = (200 \<le> res_status r \<and> res_status r \<le> 299)"

text \<open>
  What a \<open>throw\<close> of the worker carries: an error object with its message, or
  \<open>undefined\<close> (the initial value of \<open>lastError\<close> in \<open>fetchWithRetry\<close>).
\<close>

datatype thrown = Undefined | Error string

record URL =
  pathname :: string
  hostname :: string
  searchParams :: "(string \<times> string) list"

text \<open>What the run of one request does besides answering: it fetches and it sleeps.\<close>

datatype event = Fetch request | Sleep nat

section \<open>The environment of the worker\<close>

text \<open>
  The worker runs on a platform whose functions are not part of its source. They are the
  fields of an environment, so every theorem below that quantifies over the environment
  holds for whatever these functions do. Where the platform throws, it throws an error
  object, given here by its message (\<open>Inl\<close>, or \<open>Some\<close> for a check):
  \<^item> \<open>URL_new\<close> is \<open>new URL(s)\<close>, which throws on a string that does not parse;
  \<^item> \<open>decodeURIComponent\<close> throws on a malformed escape sequence;
  \<^item> \<open>Date_now\<close> is the clock read by \<open>Date.now()\<close>;
  \<^item> \<open>Request_rejects\<close> is what \<open>new Request(targetUrl, init)\<close> throws, if anything;
  \<^item> \<open>Headers_rejects name value\<close> is what \<open>Headers.set\<close> throws on a value the
    platform does not take as a header value, if anything. Only the
    \<open>Content-Disposition\<close> value is built from request data; every other value the
    worker sets is a constant or was read out of a \<open>Headers\<close> object;
  \<^item> \<open>fetch i r\<close> is the outcome of attempt \<open>i\<close> (from 0) of fetching \<open>r\<close>: a
    response, or the error thrown on a network failure, a timeout or an abort;
  \<^item> \<open>Response_statusText st\<close> is the status text of a response constructed with
    status \<open>st\<close> and no status text: the empty string in the Fetch standard;
  \<^item> \<open>interface_html\<close> is the page that \<open>getInterface\<close> returns (lines 206 to 458 of
    \<open>worker.js\<close>), a constant of the source that no property below looks into.
\<close>

record env =
  URL_new :: "string \<Rightarrow> string + URL"
  decodeURIComponent :: "string \<Rightarrow> string + string"
  Date_now :: nat
  Request_rejects :: "request \<Rightarrow> string option"
  Headers_rejects :: "string \<Rightarrow> string \<Rightarrow> string option"
  fetch :: "nat \<Rightarrow> request \<Rightarrow> string + response"
  Response_statusText :: "nat \<Rightarrow> string"
  interface_html :: string

text \<open>
  \<open>new Response(text, {status})\<close> for a string body: the status text is the platform's
  default and the content type is plain text.
\<close>

definition text_response :: "env \<Rightarrow> string \<Rightarrow> nat \<Rightarrow> response" where
  "text_response e msg st =
     \<lparr>res_status = st, res_statusText = Response_statusText e st,
      res_headers = [(''content-type'', ''text/plain;charset=UTF-8'')],
      res_body = Some msg\<rparr>"

section \<open>extractFilename\<close>

definition filenameParams :: "string list" where
  "filenameParams = [''filename'', ''file'', ''name'', ''download'']"

text \<open>
  The \<open>for\<close> loop over \<open>filenameParams\<close> with its \<open>break\<close>: the value of the first
  parameter, in the order of the list, that is truthy and contains a dot.
  \<open>params.get(param)\<close> is the first value stored under that exact name.
\<close>

fun scan_params :: "(string \<times> string) list \<Rightarrow> string list \<Rightarrow> string option" where
  "scan_params params [] = None"
| "scan_params params (param # rest) =
     (case map_of params param of
        None \<Rightarrow> scan_params params rest
      | Some paramValue \<Rightarrow>
          if paramValue \<noteq> [] \<and> CHR ''.'' \<in> set paramValue then Some paramValue
          else scan_params params rest)"

text \<open>The characters of the class \<open>[<>:"/\\|?*]\<close>.\<close>

definition invalid_chars :: "char list" where
  "invalid_chars =
     [CHR ''<'', CHR ''>'', CHR '':'', CHR 0x22, CHR ''/'', CHR 0x5C, CHR ''|'', CHR ''?'',
      CHR ''*'']"

text \<open>\<open>filename.replace(/[<>:"/\\|?*]/g, '_')\<close>.\<close>

definition clean :: "string \<Rightarrow> string" where
  "clean s = map (\<lambda>c. if c \<in> set invalid_chars then CHR ''_'' else c) s"

text \<open>\<open>hostname.replace(/[^a-zA-Z0-9.-]/g, '_')\<close>.\<close>

definition clean_hostname :: "string \<Rightarrow> string" where
  "clean_hostname s =
     map (\<lambda>c. if c \<in> set ''abcdefghijklmnopqrstuvwxyzABCDEFGHIJKLMNOPQRSTUVWXYZ0123456789.-''
              then c else CHR ''_'') s"

text \<open>\<open>!filename || !filename.includes('.')\<close>.\<close>

definition no_name :: "string option \<Rightarrow> bool" where
  "no_name filename =
     (case filename of None \<Rightarrow> True | Some s \<Rightarrow> s = [] \<or> CHR ''.'' \<notin> set s)"

text \<open>
  \<open>extractFilename\<close> (lines 163 to 204). \<open>segments[segments.length - 1]\<close> of an empty
  array is \<open>undefined\<close>. An exception of \<open>new URL\<close> or of \<open>decodeURIComponent\<close> is
  caught by the function's own \<open>catch\<close>.
\<close>

definition extractFilename :: "env \<Rightarrow> string \<Rightarrow> string" where
  "extractFilename e url =
     (case URL_new e url of
        Inl error \<Rightarrow> ''download_'' @ show_nat (Date_now e)
      | Inr urlObj \<Rightarrow>
          (let segments = filter (\<lambda>segment. length segment > 0)
                            (split_on CHR ''/'' (pathname urlObj));
               filename0 = (if segments = [] then None else Some (last segments));
               filename1 =
                 (if no_name filename0
                  then (case scan_params (searchParams urlObj) filenameParams of
                          None \<Rightarrow> filename0
                        | Some paramValue \<Rightarrow> Some paramValue)
                  else filename0);
               cleaned =
                 (case filename1 of
                    None \<Rightarrow> Inr None
                  | Some f \<Rightarrow>
                      if f \<noteq> []
                      then (case decodeURIComponent e (clean f) of
                              Inl error \<Rightarrow> Inl error
                            | Inr d \<Rightarrow> Inr (Some d))
                      else Inr (Some f))
           in case cleaned of
                Inl error \<Rightarrow> ''download_'' @ show_nat (Date_now e)
              | Inr filename2 \<Rightarrow>
                  (case filename2 of
                     None \<Rightarrow>
                       ''download_'' @ clean_hostname (hostname urlObj) @ ''_''
                         @ show_nat (Date_now e)
                   | Some f \<Rightarrow>
                       if no_name (Some f)
                       then ''download_'' @ clean_hostname (hostname urlObj) @ ''_''
                              @ show_nat (Date_now e)
                       else f)))"

section \<open>fetchWithRetry\<close>

text \<open>
  The loop of \<open>fetchWithRetry\<close> (lines 139 to 158) from counter \<open>i\<close>, with the events it
  causes in order. \<open>request.clone()\<close> is the request again. \<open>maxRetries\<close> is a natural
  number: the worker passes 3. The sleep is \<open>Math.pow(2, i) * 1000\<close> milliseconds.
\<close>

function fetchLoop ::
  "env \<Rightarrow> request \<Rightarrow> nat \<Rightarrow> nat \<Rightarrow> thrown \<Rightarrow> (thrown + response) \<times> event list" where
  "fetchLoop e request maxRetries i lastError =
     (if i \<le> maxRetries
      then (case fetch e i request of
              Inr response \<Rightarrow> (Inr response, [Fetch request])
            | Inl msg \<Rightarrow>
                (case fetchLoop e request maxRetries (i + 1) (Error msg) of
                   (result, events) \<Rightarrow>
                     (result,
                      Fetch request
                        # (if i < maxRetries then [Sleep (2 ^ i * 1000)] else [])
                        @ events)))
      else (Inl lastError, []))"
  by pat_completeness auto
termination
  by (relation "measure (\<lambda>(e, request, maxRetries, i, lastError). maxRetries + 1 - i)") auto

declare fetchLoop.simps [simp del]

definition fetchWithRetry ::
  "env \<Rightarrow> request \<Rightarrow> nat \<Rightarrow> (thrown + response) \<times> event list" where
  "fetchWithRetry e request maxRetries = fetchLoop e request maxRetries 0 Undefined"

section \<open>proxyDownload\<close>

definition relevantHeaders :: "string list" where
  "relevantHeaders =
     [''range'', ''user-agent'', ''accept'', ''accept-encoding'', ''cache-control'',
      ''if-modified-since'', ''if-none-match'']"

definition importantHeaders :: "string list" where
  "importantHeaders =
     [''content-type'', ''content-length'', ''content-range'', ''accept-ranges'',
      ''last-modified'', ''etag'', ''cache-control'', ''expires'']"

text \<open>
  The two \<open>forEach\<close> loops (lines 57 to 62 and 96 to 101): each listed header whose value
  in \<open>src\<close> is truthy is set in the headers under construction.
\<close>

definition copy_header :: "headers \<Rightarrow> headers \<Rightarrow> string \<Rightarrow> headers" where
  "copy_header src dst header =
     (case Headers_get src header of
        None \<Rightarrow> dst
      | Some v \<Rightarrow> if v \<noteq> [] then Headers_set dst header v else dst)"

definition copy_headers :: "string list \<Rightarrow> headers \<Rightarrow> headers \<Rightarrow> headers" where
  "copy_headers names src dst = foldl (copy_header src) dst names"

text \<open>Lines 44 to 65: the headers of the upstream request.\<close>

definition upstreamHeaders :: "request \<Rightarrow> headers" where
  "upstreamHeaders originalRequest =
     Headers_set (copy_headers relevantHeaders (req_headers originalRequest) [])
       ''User-Agent'' ''Cloudflare-Download-Link-Stabilizer/1.0''"

text \<open>Lines 67 to 72: the upstream request; the body is not forwarded for \<open>GET\<close>.\<close>

definition upstreamRequest :: "request \<Rightarrow> string \<Rightarrow> request" where
  "upstreamRequest originalRequest targetUrl =
     \<lparr>req_method = req_method originalRequest,
      req_url = targetUrl,
      req_headers = upstreamHeaders originalRequest,
      req_body = (if req_method originalRequest \<noteq> ''GET'' then req_body originalRequest
                  else None)\<rparr>"

text \<open>
  \<open>encodeURIComponent\<close>: every byte of the UTF-8 form but the unreserved characters
  \<open>A-Z a-z 0-9 - _ . ! ~ * ' ( )\<close> becomes \<open>%\<close> and two upper-case hexadecimal digits.
\<close>

definition unreserved :: "char list" where
  "unreserved =
     ''abcdefghijklmnopqrstuvwxyzABCDEFGHIJKLMNOPQRSTUVWXYZ0123456789-_.!~*()'' @ [CHR 0x27]"

definition encode_char :: "char \<Rightarrow> string" where
  "encode_char c =
     (if c \<in> set unreserved then [c]
      else [CHR ''%'', ''0123456789ABCDEF'' ! (of_char c div 16),
            ''0123456789ABCDEF'' ! (of_char c mod 16)])"

definition encodeURIComponent :: "string \<Rightarrow> string" where
  "encodeURIComponent s = concat (map encode_char s)"

text \<open>Line 111: the value of the \<open>Content-Disposition\<close> header.\<close>

definition contentDisposition :: "string \<Rightarrow> string" where
  "contentDisposition filename =
     ''attachment; filename='' @ [CHR 0x22] @ filename @ [CHR 0x22]
       @ ''; filename*=UTF-8'' @ [CHR 0x27, CHR 0x27] @ encodeURIComponent filename"

text \<open>Lines 82 to 106: the headers taken over from the upstream response.\<close>

definition copiedHeaders :: "response \<Rightarrow> headers" where
  "copiedHeaders response =
     (let responseHeaders = copy_headers importantHeaders (res_headers response) []
      in if \<not> Headers_has responseHeaders ''accept-ranges''
         then Headers_set responseHeaders ''accept-ranges'' ''bytes''
         else responseHeaders)"

text \<open>Lines 114 to 118: the four CORS headers.\<close>

definition corsHeaders :: "headers \<Rightarrow> headers" where
  "corsHeaders responseHeaders =
     Headers_set
       (Headers_set
          (Headers_set
             (Headers_set responseHeaders ''Access-Control-Allow-Origin'' ''*'')
             ''Access-Control-Allow-Methods'' ''GET, HEAD, OPTIONS'')
          ''Access-Control-Allow-Headers'' ''Range, Content-Type'')
       ''Access-Control-Expose-Headers''
       ''Content-Length, Content-Range, Accept-Ranges, Content-Disposition''"

text \<open>
  Lines 77 to 133: what \<open>proxyDownload\<close> does with the response that \<open>fetchWithRetry\<close>
  returned. The result is the response it returns or what it throws.
\<close>

definition respond :: "env \<Rightarrow> request \<Rightarrow> string \<Rightarrow> response \<Rightarrow> thrown + response" where
  "respond e originalRequest targetUrl response =
     (if \<not> ok response \<and> res_status response \<noteq> 206
      then Inl (Error (''Upstream server responded with '' @ show_nat (res_status response)
                        @ '': '' @ res_statusText response))
      else
        (let responseHeaders = copiedHeaders response;
             filename = extractFilename e targetUrl;
             withDisposition =
               (if filename \<noteq> []
                then (case Headers_rejects e ''Content-Disposition''
                             (contentDisposition filename) of
                        Some msg \<Rightarrow> Inl (Error msg)
                      | None \<Rightarrow>
                          Inr (Headers_set responseHeaders ''Content-Disposition''
                                 (contentDisposition filename)))
                else Inr responseHeaders)
         in case withDisposition of
              Inl error \<Rightarrow> Inl error
            | Inr responseHeaders' \<Rightarrow>
                if req_method originalRequest = ''OPTIONS''
                then Inr \<lparr>res_status = 200, res_statusText = Response_statusText e 200,
                          res_headers = corsHeaders responseHeaders', res_body = None\<rparr>
                else Inr \<lparr>res_status = res_status response,
                          res_statusText = res_statusText response,
                          res_headers = corsHeaders responseHeaders',
                          res_body = res_body response\<rparr>))"

text \<open>
  \<open>proxyDownload\<close> (lines 42 to 134), with the events of its run. The upstream request is
  fetched with three retries before anything else is looked at, the method of the original
  request included.
\<close>

definition proxyDownload ::
  "env \<Rightarrow> request \<Rightarrow> string \<Rightarrow> (thrown + response) \<times> event list" where
  "proxyDownload e originalRequest targetUrl =
     (case Request_rejects e (upstreamRequest originalRequest targetUrl) of
        Some msg \<Rightarrow> (Inl (Error msg), [])
      | None \<Rightarrow>
          (case fetchWithRetry e (upstreamRequest originalRequest targetUrl) 3 of
             (Inl error, events) \<Rightarrow> (Inl error, events)
           | (Inr response, events) \<Rightarrow>
               (respond e originalRequest targetUrl response, events)))"

section \<open>handleRequest\<close>

text \<open>
  The \<open>catch\<close> of \<open>handleRequest\<close> (lines 36 to 39) reads \<open>error.message\<close>. On
  \<open>undefined\<close> that read throws a \<open>TypeError\<close> out of the handler.
\<close>

definition caught :: "env \<Rightarrow> thrown \<Rightarrow> thrown + response" where
  "caught e error =
     (case error of
        Error msg \<Rightarrow> Inr (text_response e (''Proxy error: '' @ msg) 500)
      | Undefined \<Rightarrow>
          Inl (Error ''Cannot read properties of undefined (reading 'message')''))"

text \<open>
  \<open>handleRequest\<close> (lines 5 to 40), with the events of its run. \<open>new URL(request.url)\<close>
  stands outside every \<open>try\<close>.
\<close>

definition handleRequest :: "env \<Rightarrow> request \<Rightarrow> (thrown + response) \<times> event list" where
  "handleRequest e request =
     (case URL_new e (req_url request) of
        Inl msg \<Rightarrow> (Inl (Error msg), [])
      | Inr url \<Rightarrow>
          if pathname url = ''/''
          then (Inr \<lparr>res_status = 200, res_statusText = Response_statusText e 200,
                     res_headers = [(''Content-Type'', ''text/html'')],
                     res_body = Some (interface_html e)\<rparr>, [])
          else
            (let targetUrl = drop 1 (pathname url)
             in if targetUrl = [] then (Inr (text_response e ''No URL provided'' 400), [])
                else
                  (case decodeURIComponent e targetUrl of
                     Inl error \<Rightarrow> (Inr (text_response e ''Invalid URL encoding'' 400), [])
                   | Inr decodedUrl \<Rightarrow>
                       if \<not> startsWith decodedUrl ''http://''
                          \<and> \<not> startsWith decodedUrl ''https://''
                       then (Inr (text_response e
                                    ''Invalid URL - must start with http:// or https://'' 400),
                             [])
                       else
                         (case proxyDownload e request decodedUrl of
                            (Inr response, events) \<Rightarrow> (Inr response, events)
                          | (Inl error, events) \<Rightarrow> (caught e error, events)))))"

text \<open>
  The target URL that \<open>handleRequest\<close> hands to \<open>proxyDownload\<close> (the checks of lines
  6 to 32), if the request gets that far.
\<close>

definition target_of :: "env \<Rightarrow> request \<Rightarrow> string option" where
  "target_of e request =
     (case URL_new e (req_url request) of
        Inl msg \<Rightarrow> None
      | Inr url \<Rightarrow>
          if pathname url = ''/'' \<or> drop 1 (pathname url) = [] then None
          else (case decodeURIComponent e (drop 1 (pathname url)) of
                  Inl msg \<Rightarrow> None
                | Inr decodedUrl \<Rightarrow>
                    if startsWith decodedUrl ''http://'' \<or> startsWith decodedUrl ''https://''
                    then Some decodedUrl else None))"

section \<open>Observing a run\<close>

text \<open>The number of fetch attempts among the events of a run, and the sleeps in order.\<close>

definition fetches :: "event list \<Rightarrow> nat" where
  "fetches events =
     length (filter (\<lambda>ev. case ev of Fetch r \<Rightarrow> True | Sleep n \<Rightarrow> False) events)"

definition sleeps :: "event list \<Rightarrow> nat list" where
  "sleeps events = concat (map (\<lambda>ev. case ev of Fetch r \<Rightarrow> [] | Sleep n \<Rightarrow> [n]) events)"

text \<open>The events of attempt \<open>i\<close> when it fails: the fetch, and the backoff if attempts remain.\<close>

definition attempt_events :: "request \<Rightarrow> nat \<Rightarrow> nat \<Rightarrow> event list" where
  "attempt_events request maxRetries i =
     Fetch request # (if i < maxRetries then [Sleep (2 ^ i * 1000)] else [])"

section \<open>A reference platform\<close>

text \<open>
  The concrete inputs below are run on a reference platform. Its
  \<open>decodeURIComponent\<close> is the algorithm of ECMAScript on the UTF-8 form of a string:
  \<open>%\<close> must be followed by two hexadecimal digits, and the escaped bytes must form
  well-formed UTF-8 (a lead byte \<open>C2\<close> to \<open>F4\<close>, then its continuation bytes, each of them
  escaped and within the bounds that exclude overlong forms, surrogates and code points
  above \<open>10FFFF\<close>); anything else throws a \<open>URIError\<close>.
\<close>

definition hexval :: "char \<Rightarrow> nat option" where
  "hexval c =
     map_of (zip ''0123456789abcdefABCDEF''
               [0, 1, 2, 3, 4, 5, 6, 7, 8, 9, 10, 11, 12, 13, 14, 15, 10, 11, 12, 13, 14, 15]) c"

text \<open>The byte with high hexadecimal digit \<open>a\<close> and low digit \<open>b\<close>.\<close>

definition byte_char :: "nat \<Rightarrow> nat \<Rightarrow> char" where
  "byte_char a b =
     Char (odd b) (odd (b div 2)) (odd (b div 4)) (odd (b div 8))
          (odd a) (odd (a div 2)) (odd (a div 4)) (odd (a div 8))"

definition cons_ok :: "char \<Rightarrow> string option \<Rightarrow> string option" where
  "cons_ok c r = (case r of None \<Rightarrow> None | Some s \<Rightarrow> Some (c # s))"

text \<open>
  \<open>decode needed lo hi s\<close>: \<open>needed\<close> continuation bytes are still due, the next of them
  within \<open>lo\<close> to \<open>hi\<close>. \<open>None\<close> is the \<open>URIError\<close>.
\<close>

fun decode :: "nat \<Rightarrow> nat \<Rightarrow> nat \<Rightarrow> string \<Rightarrow> string option" where
  "decode needed lo hi [] = (if needed = 0 then Some [] else None)"
| "decode needed lo hi (c # cs) =
     (if c = CHR ''%''
      then (case cs of
              h1 # h2 # rest \<Rightarrow>
                (case (hexval h1, hexval h2) of
                   (Some a, Some b) \<Rightarrow>
                     (let B = 16 * a + b
                      in if needed = 0
                         then (if B < 0x80 then cons_ok (byte_char a b) (decode 0 0x80 0xBF rest)
                               else if 0xC2 \<le> B \<and> B \<le> 0xDF
                               then cons_ok (byte_char a b) (decode 1 0x80 0xBF rest)
                               else if 0xE0 \<le> B \<and> B \<le> 0xEF
                               then cons_ok (byte_char a b)
                                      (decode 2 (if B = 0xE0 then 0xA0 else 0x80)
                                         (if B = 0xED then 0x9F else 0xBF) rest)
                               else if 0xF0 \<le> B \<and> B \<le> 0xF4
                               then cons_ok (byte_char a b)
                                      (decode 3 (if B = 0xF0 then 0x90 else 0x80)
                                         (if B = 0xF4 then 0x8F else 0xBF) rest)
                               else None)
                         else if lo \<le> B \<and> B \<le> hi
                         then cons_ok (byte_char a b) (decode (needed - 1) 0x80 0xBF rest)
                         else None)
                 | _ \<Rightarrow> None)
            | _ \<Rightarrow> None)
      else if needed = 0 then cons_ok c (decode 0 0x80 0xBF cs)
      else None)"

definition std_decodeURIComponent :: "string \<Rightarrow> string + string" where
  "std_decodeURIComponent s =
     (case decode 0 0x80 0xBF s of
        None \<Rightarrow> Inl ''URI malformed''
      | Some d \<Rightarrow> Inr d)"

text \<open>
  The query string as \<open>URLSearchParams\<close> reads it: pairs separated by \<open>&\<close>, name and
  value separated by the first \<open>=\<close>, \<open>+\<close> for a space, and escapes decoded where they
  are well-formed (a \<open>%\<close> without two hexadecimal digits stays).
\<close>

fun percent_decode :: "string \<Rightarrow> string" where
  "percent_decode (c # h1 # h2 # rest) =
     (if c = CHR ''%''
      then (case (hexval h1, hexval h2) of
              (Some a, Some b) \<Rightarrow> byte_char a b # percent_decode rest
            | _ \<Rightarrow> c # percent_decode (h1 # h2 # rest))
      else c # percent_decode (h1 # h2 # rest))"
| "percent_decode cs = cs"

definition form_decode :: "string \<Rightarrow> string" where
  "form_decode s = percent_decode (map (\<lambda>c. if c = CHR ''+'' then CHR '' '' else c) s)"

definition parse_query :: "string \<Rightarrow> (string \<times> string) list" where
  "parse_query q =
     map (\<lambda>pair. (form_decode (takeWhile (\<lambda>c. c \<noteq> CHR ''='') pair),
                   form_decode (drop 1 (dropWhile (\<lambda>c. c \<noteq> CHR ''='') pair))))
       (filter (\<lambda>pair. pair \<noteq> []) (split_on CHR ''&'' q))"

text \<open>
  \<open>new URL(s)\<close> on the URLs used below: \<open>http://\<close> or \<open>https://\<close>, a host in ASCII
  (lower-cased, a port cut off), a path and a query. The path keeps its escapes, as in
  the URL standard, and an empty path is \<open>/\<close>. A string without such a prefix, or
  without a host, does not parse here. What the standard normalises beyond that (dot
  segments, characters it escapes, credentials, other schemes) is outside these inputs.
\<close>

definition std_URL_new :: "string \<Rightarrow> string + URL" where
  "std_URL_new s =
     (let rest = (if startsWith s ''https://'' then Some (drop 8 s)
                  else if startsWith s ''http://'' then Some (drop 7 s)
                  else None)
      in case rest of
           None \<Rightarrow> Inl ''Invalid URL''
         | Some r \<Rightarrow>
             (let authority = takeWhile (\<lambda>c. c \<notin> set ''/?#'') r;
                  after = dropWhile (\<lambda>c. c \<notin> set ''/?#'') r;
                  host = lower (takeWhile (\<lambda>c. c \<noteq> CHR '':'') authority);
                  path = takeWhile (\<lambda>c. c \<notin> set ''?#'') after;
                  tail = dropWhile (\<lambda>c. c \<notin> set ''?#'') after;
                  query = (case tail of
                             [] \<Rightarrow> []
                           | t # ts \<Rightarrow> if t = CHR ''?''
                                       then takeWhile (\<lambda>c. c \<noteq> CHR ''#'') ts else [])
              in if host = [] then Inl ''Invalid URL''
                 else Inr \<lparr>pathname = (if path = [] then ''/'' else path),
                           hostname = host,
                           searchParams = parse_query query\<rparr>))"

text \<open>
  The reference platform at clock \<open>T\<close> over an upstream \<open>up\<close>. \<open>new Request\<close> throws on
  a URL that does not parse, and \<open>Headers.set\<close> on a value with a NUL, a line feed or a
  carriage return, as the Fetch standard has it; a response constructed without a status
  text has the empty one.
\<close>

definition std :: "nat \<Rightarrow> (nat \<Rightarrow> request \<Rightarrow> string + response) \<Rightarrow> env" where
  "std T up =
     \<lparr>URL_new = std_URL_new,
      decodeURIComponent = std_decodeURIComponent,
      Date_now = T,
      Request_rejects =
        (\<lambda>r. case std_URL_new (req_url r) of Inl msg \<Rightarrow> Some msg | Inr u \<Rightarrow> None),
      Headers_rejects =
        (\<lambda>name v. if CHR 0x00 \<in> set v \<or> CHR 0x0A \<in> set v \<or> CHR 0x0D \<in> set v
                   then Some ''Invalid header value.'' else None),
      fetch = up,
      Response_statusText = (\<lambda>st. []),
      interface_html = ''<!DOCTYPE html>''\<rparr>"


section \<open>Example requests and upstreams\<close>

text \<open>
  A request to the worker at \<open>https://worker.example\<close>, the target URL given as it stands
  in the path (percent-encoded), with some headers of a download client.
\<close>

definition client_request :: "string \<Rightarrow> string \<Rightarrow> request" where
  "client_request m encoded =
     \<lparr>req_method = m,
      req_url = ''https://worker.example/'' @ encoded,
      req_headers = [(''Range'', ''bytes=0-99''), (''User-Agent'', ''curl/8.0''),
                     (''Accept'', []), (''Cookie'', ''session=1'')],
      req_body = None\<rparr>"

text \<open>An upstream response with a given status, status text and headers.\<close>

definition upstream_response :: "nat \<Rightarrow> string \<Rightarrow> headers \<Rightarrow> response" where
  "upstream_response st txt hs =
     \<lparr>res_status = st, res_statusText = txt, res_headers = hs, res_body = Some ''data''\<rparr>"

text \<open>An upstream that fails on the first \<open>n\<close> attempts and then answers \<open>r\<close>.\<close>

definition fails_then :: "nat \<Rightarrow> response \<Rightarrow> nat \<Rightarrow> request \<Rightarrow> string + response" where
  "fails_then n r i request = (if i < n then Inl ''network timeout'' else Inr r)"

text \<open>An upstream that never answers.\<close>

definition always_fails :: "nat \<Rightarrow> request \<Rightarrow> string + response" where
  "always_fails i request = Inl ''network timeout''"


section \<open>Lemmas on strings and headers\<close>

lemma show_nat_nonempty: "show_nat n \<noteq> []"
  by (subst show_nat.simps) simp

lemma Headers_values_set:
  "Headers_values (Headers_set hs n v) m =
     (if lower m = lower n then [v] else Headers_values hs m)"
  by (induction hs) (auto simp: Headers_values_def Headers_set_def)

lemma Headers_get_set:
  "Headers_get (Headers_set hs n v) m =
     (if lower m = lower n then Some v else Headers_get hs m)"
  by (simp add: Headers_get_def Headers_values_set)

lemma Headers_has_get: "Headers_has hs m = (Headers_get hs m \<noteq> None)"
  by (simp add: Headers_has_def Headers_get_def split: list.splits)

lemma Headers_get_lower: "lower m = lower n \<Longrightarrow> Headers_get hs m = Headers_get hs n"
  by (simp add: Headers_get_def Headers_values_def)

lemma Headers_get_nil: "Headers_get [] m = None"
  by (simp add: Headers_get_def Headers_values_def)

lemma copy_header_get:
  "Headers_get (copy_header src dst h) m =
     (if lower m = lower h \<and> (\<exists>v. Headers_get src m = Some v \<and> v \<noteq> [])
      then Headers_get src m else Headers_get dst m)"
  by (auto simp: copy_header_def Headers_get_set Headers_get_lower [of m h]
      split: option.splits)

lemma copy_headers_get:
  "Headers_get (copy_headers names src dst) m =
     (if lower m \<in> lower ` set names \<and> (\<exists>v. Headers_get src m = Some v \<and> v \<noteq> [])
      then Headers_get src m else Headers_get dst m)"
  unfolding copy_headers_def
proof (induction names arbitrary: dst)
  case Nil
  then show ?case by simp
next
  case (Cons h names)
  then show ?case
    by (auto simp: copy_header_get)
qed

section \<open>Lemmas on the retry loop\<close>

lemma fetchLoop_all_fail:
  assumes "\<forall>j. i \<le> j \<and> j \<le> R \<longrightarrow> fetch e j rq = Inl (msg j)"
    and "i \<le> R"
  shows "fetchLoop e rq R i lastErr =
           (Inl (Error (msg R)), concat (map (attempt_events rq R) [i..<Suc R]))"
  using assms
proof (induction "R - i" arbitrary: i lastErr)
  case 0
  then have "i = R" by simp
  with 0 show ?case
    by (subst fetchLoop.simps, subst fetchLoop.simps) (simp add: attempt_events_def)
next
  case (Suc n)
  then have lt: "i < R" and f: "fetch e i rq = Inl (msg i)" by auto
  have ih: "fetchLoop e rq R (i + 1) (Error (msg i)) =
           (Inl (Error (msg R)), concat (map (attempt_events rq R) [i + 1..<Suc R]))"
    using Suc by (intro Suc(1)) auto
  have "[i..<Suc R] = i # [i + 1..<Suc R]"
    using lt by (simp add: upt_conv_Cons)
  then show ?case
    using lt f ih by (subst fetchLoop.simps) (simp add: attempt_events_def)
qed

lemma fetchLoop_first_response:
  assumes "\<forall>j. i \<le> j \<and> j < k \<longrightarrow> fetch e j rq = Inl (msg j)"
    and "fetch e k rq = Inr r" and "i \<le> k" and "k \<le> R"
  shows "fetchLoop e rq R i lastErr =
           (Inr r, concat (map (attempt_events rq R) [i..<k]) @ [Fetch rq])"
  using assms
proof (induction "k - i" arbitrary: i lastErr)
  case 0
  then have "i = k" by simp
  with 0 show ?case
    by (subst fetchLoop.simps) simp
next
  case (Suc n)
  then have lt: "i < k" and f: "fetch e i rq = Inl (msg i)" by auto
  have ih: "fetchLoop e rq R (i + 1) (Error (msg i)) =
           (Inr r, concat (map (attempt_events rq R) [i + 1..<k]) @ [Fetch rq])"
    using Suc by (intro Suc(1)) auto
  have "[i..<k] = i # [i + 1..<k]"
    using lt by (simp add: upt_conv_Cons)
  then show ?case
    using lt f ih Suc.prems by (subst fetchLoop.simps) (simp add: attempt_events_def)
qed

lemma fetchLoop_events:
  "ev \<in> set (snd (fetchLoop e rq R i lastErr)) \<Longrightarrow> ev = Fetch rq \<or> (\<exists>n. ev = Sleep n)"
proof (induction e rq R i lastErr rule: fetchLoop.induct)
  case (1 e request maxRetries i lastError)
  then show ?case
    by (subst (asm) (2) fetchLoop.simps) (auto split: if_splits sum.splits prod.splits)
qed


lemma fetches_attempts: "fetches (concat (map (attempt_events rq R) xs)) = length xs"
  by (induction xs) (auto simp: fetches_def attempt_events_def)

lemma sleeps_attempts:
  "sleeps (concat (map (attempt_events rq R) xs)) =
     map (\<lambda>i. 2 ^ i * 1000) (filter (\<lambda>i. i < R) xs)"
  by (induction xs) (auto simp: sleeps_def attempt_events_def)

lemma fetches_append: "fetches (xs @ ys) = fetches xs + fetches ys"
  by (simp add: fetches_def)

lemma sleeps_append: "sleeps (xs @ ys) = sleeps xs @ sleeps ys"
  by (simp add: sleeps_def)


section \<open>Lemmas on the handler\<close>

lemma handleRequest_target:
  "target_of e request = Some d \<Longrightarrow>
     handleRequest e request =
       (case proxyDownload e request d of
          (Inr response, events) \<Rightarrow> (Inr response, events)
        | (Inl error, events) \<Rightarrow> (caught e error, events))"
  by (auto simp: target_of_def handleRequest_def Let_def split: sum.splits if_splits)

lemma extractFilename_nonempty: "extractFilename e url \<noteq> []"
  by (auto simp: extractFilename_def Let_def no_name_def show_nat_nonempty
      split: sum.splits option.splits)


section \<open>Evaluating on the reference platform\<close>

lemmas platform_defs =
  std_def std_URL_new_def std_decodeURIComponent_def startsWith_def lower_def lower_char_def
  parse_query_def form_decode_def hexval_def byte_char_def cons_ok_def

lemmas example_defs =
  client_request_def upstream_response_def fails_then_def always_fails_def

lemma example_target:
  "target_of (std T up) (client_request m ''https%3A%2F%2Fa.com%2Ffile.zip'') =
     Some ''https://a.com/file.zip''"
  by (simp add: target_of_def platform_defs example_defs)

lemma example_accepted:
  "Request_rejects (std T up) (upstreamRequest rq ''https://a.com/file.zip'') = None"
  by (simp add: upstreamRequest_def platform_defs)

lemma text_response_std:
  "text_response (std T up) msg st =
     \<lparr>res_status = st, res_statusText = [],
      res_headers = [(''content-type'', ''text/plain;charset=UTF-8'')],
      res_body = Some msg\<rparr>"
  by (simp add: text_response_def std_def)

section \<open>The retry engine\<close>

text \<open>
  C3. When every attempt fails at the transport level, \<open>fetchWithRetry\<close> with
  \<open>maxRetries = R\<close> makes exactly \<open>R + 1\<close> fetch attempts, sleeps \<open>2 ^ i\<close> seconds
  (\<open>2 ^ i * 1000\<close> milliseconds) after failed attempt \<open>i\<close> for \<open>i\<close> from 0 to \<open>R - 1\<close>
  and not after the last attempt, and throws the error of the last attempt. In the
  handler, where \<open>R\<close> is 3, the client gets a response with status 500 whose body carries
  that error's message, after four attempts and sleeps of 1, 2 and 4 seconds.
\<close>

theorem C3_retry_exhaustion:
  assumes "\<forall>i\<le>R. fetch e i rq = Inl (msg i)"
  shows "fetchWithRetry e rq R =
           (Inl (Error (msg R)),
            concat (map (\<lambda>i. Fetch rq # (if i < R then [Sleep (2 ^ i * 1000)] else []))
                      [0..<Suc R]))
         \<and> fetches (snd (fetchWithRetry e rq R)) = R + 1
         \<and> sleeps (snd (fetchWithRetry e rq R)) = map (\<lambda>i. 2 ^ i * 1000) [0..<R]
         \<and> (target_of e request = Some d \<and> rq = upstreamRequest request d
              \<and> Request_rejects e rq = None \<and> R = 3 \<longrightarrow>
            handleRequest e request =
              (Inr (text_response e (''Proxy error: '' @ msg 3) 500),
               [Fetch rq, Sleep 1000, Fetch rq, Sleep 2000, Fetch rq, Sleep 4000, Fetch rq]))"
proof -
  have run: "fetchWithRetry e rq R =
      (Inl (Error (msg R)), concat (map (attempt_events rq R) [0..<Suc R]))"
    unfolding fetchWithRetry_def using assms by (intro fetchLoop_all_fail) auto
  have same: "attempt_events rq R =
      (\<lambda>i. Fetch rq # (if i < R then [Sleep (2 ^ i * 1000)] else []))"
    by (rule ext) (simp add: attempt_events_def)
  have "filter (\<lambda>i. i < R) [0..<Suc R] = [0..<R]"
    by simp
  then have sl: "sleeps (snd (fetchWithRetry e rq R)) = map (\<lambda>i. 2 ^ i * 1000) [0..<R]"
    by (simp only: run snd_conv sleeps_attempts)
  have fe: "fetches (snd (fetchWithRetry e rq R)) = R + 1"
    by (simp only: run snd_conv fetches_attempts length_upt)
  have handler: "handleRequest e request =
      (Inr (text_response e (''Proxy error: '' @ msg 3) 500),
       [Fetch rq, Sleep 1000, Fetch rq, Sleep 2000, Fetch rq, Sleep 4000, Fetch rq])"
    if t: "target_of e request = Some d" and rq: "rq = upstreamRequest request d"
      and acc: "Request_rejects e rq = None" and R: "R = 3"
  proof -
    have "[0..<Suc 3] = [0, 1, 2, 3]"
      by (simp add: upt_conv_Cons)
    then have "fetchWithRetry e rq 3 =
        (Inl (Error (msg 3)),
         [Fetch rq, Sleep 1000, Fetch rq, Sleep 2000, Fetch rq, Sleep 4000, Fetch rq])"
      using run R by (simp add: attempt_events_def)
    then show ?thesis
      using acc rq by (simp add: handleRequest_target [OF t] proxyDownload_def caught_def)
  qed
  have run': "fetchWithRetry e rq R =
      (Inl (Error (msg R)),
       concat (map (\<lambda>i. Fetch rq # (if i < R then [Sleep (2 ^ i * 1000)] else []))
                 [0..<Suc R]))"
    using run by (simp only: same)
  from run' fe sl handler show ?thesis
    by blast
qed

theorem C3_retry_exhaustion_witness:
  "handleRequest (std 0 always_fails) (client_request ''GET'' ''https%3A%2F%2Fa.com%2Ffile.zip'') =
     (Inr (text_response (std 0 always_fails) ''Proxy error: network timeout'' 500),
      [Fetch (upstreamRequest (client_request ''GET'' ''https%3A%2F%2Fa.com%2Ffile.zip'')
                ''https://a.com/file.zip''),
       Sleep 1000,
       Fetch (upstreamRequest (client_request ''GET'' ''https%3A%2F%2Fa.com%2Ffile.zip'')
                ''https://a.com/file.zip''),
       Sleep 2000,
       Fetch (upstreamRequest (client_request ''GET'' ''https%3A%2F%2Fa.com%2Ffile.zip'')
                ''https://a.com/file.zip''),
       Sleep 4000,
       Fetch (upstreamRequest (client_request ''GET'' ''https%3A%2F%2Fa.com%2Ffile.zip'')
                ''https://a.com/file.zip'')])"
proof -
  let ?e = "std 0 always_fails"
  let ?request = "client_request ''GET'' ''https%3A%2F%2Fa.com%2Ffile.zip''"
  let ?rq = "upstreamRequest ?request ''https://a.com/file.zip''"
  have fails: "\<forall>i\<le>3. fetch ?e i ?rq = Inl ((\<lambda>i. ''network timeout'') i)"
    by (simp add: std_def always_fails_def)
  show ?thesis
    using C3_retry_exhaustion [OF fails, of ?request "''https://a.com/file.zip''"]
      example_target [of 0 always_fails "''GET''"] example_accepted [of 0 always_fails ?request]
    by simp
qed

text \<open>
  C4. \<open>fetchWithRetry\<close> returns the first response it obtains, whatever its status: if
  the attempts before attempt \<open>k\<close> throw and attempt \<open>k\<close> yields a response, that response
  is returned after \<open>k + 1\<close> fetch attempts and the \<open>k\<close> backoff sleeps that followed the
  failures; nothing is fetched and nothing is slept after it.
\<close>

theorem C4_first_response_returned:
  assumes "\<forall>j<k. fetch e j rq = Inl (msg j)"
    and "fetch e k rq = Inr r"
    and "k \<le> R"
  shows "fetchWithRetry e rq R =
           (Inr r, concat (map (\<lambda>j. [Fetch rq, Sleep (2 ^ j * 1000)]) [0..<k]) @ [Fetch rq])
         \<and> fetches (snd (fetchWithRetry e rq R)) = k + 1
         \<and> sleeps (snd (fetchWithRetry e rq R)) = map (\<lambda>j. 2 ^ j * 1000) [0..<k]"
proof -
  have run: "fetchWithRetry e rq R =
      (Inr r, concat (map (attempt_events rq R) [0..<k]) @ [Fetch rq])"
    unfolding fetchWithRetry_def using assms by (intro fetchLoop_first_response) auto
  have same: "map (attempt_events rq R) [0..<k] =
      map (\<lambda>j. [Fetch rq, Sleep (2 ^ j * 1000)]) [0..<k]"
    using \<open>k \<le> R\<close> by (intro map_cong) (auto simp: attempt_events_def)
  have "filter (\<lambda>i. i < R) [0..<k] = [0..<k]"
    using \<open>k \<le> R\<close> by (auto simp: filter_id_conv)
  then have sl: "sleeps (snd (fetchWithRetry e rq R)) = map (\<lambda>j. 2 ^ j * 1000) [0..<k]"
    by (simp add: run sleeps_append sleeps_attempts) (simp add: sleeps_def)
  have fe: "fetches (snd (fetchWithRetry e rq R)) = k + 1"
    by (simp add: run fetches_append fetches_attempts) (simp add: fetches_def)
  have run': "fetchWithRetry e rq R =
      (Inr r, concat (map (\<lambda>j. [Fetch rq, Sleep (2 ^ j * 1000)]) [0..<k]) @ [Fetch rq])"
    using run by (simp only: same)
  from run' fe sl show ?thesis
    by blast
qed

theorem C4_first_response_returned_witness:
  "fetchWithRetry (std 0 (fails_then 2 (upstream_response 404 ''Not Found'' [])))
     (upstreamRequest (client_request ''GET'' ''x'') ''https://a.com/file.zip'') 3 =
     (Inr (upstream_response 404 ''Not Found'' []),
      [Fetch (upstreamRequest (client_request ''GET'' ''x'') ''https://a.com/file.zip''),
       Sleep 1000,
       Fetch (upstreamRequest (client_request ''GET'' ''x'') ''https://a.com/file.zip''),
       Sleep 2000,
       Fetch (upstreamRequest (client_request ''GET'' ''x'') ''https://a.com/file.zip'')])"
proof -
  let ?e = "std 0 (fails_then 2 (upstream_response 404 ''Not Found'' []))"
  let ?rq = "upstreamRequest (client_request ''GET'' ''x'') ''https://a.com/file.zip''"
  have fails: "\<forall>j<2. fetch ?e j ?rq = Inl ((\<lambda>i. ''network timeout'') j)"
    by (simp add: std_def fails_then_def)
  have answers: "fetch ?e 2 ?rq = Inr (upstream_response 404 ''Not Found'' [])"
    by (simp add: std_def fails_then_def)
  have "[0..<2] = [0, Suc 0]"
    by (simp add: upt_conv_Cons)
  then show ?thesis
    using C4_first_response_returned [OF fails answers, of 3] by simp
qed


section \<open>Lemmas on the response\<close>

lemma corsHeaders_get:
  "Headers_get (corsHeaders hs) m =
     (if lower m = ''access-control-expose-headers''
      then Some ''Content-Length, Content-Range, Accept-Ranges, Content-Disposition''
      else if lower m = ''access-control-allow-headers'' then Some ''Range, Content-Type''
      else if lower m = ''access-control-allow-methods'' then Some ''GET, HEAD, OPTIONS''
      else if lower m = ''access-control-allow-origin'' then Some ''*''
      else Headers_get hs m)"
  by (simp add: corsHeaders_def Headers_get_set lower_def lower_char_def)

lemma ok_206: "(\<not> ok r \<and> res_status r \<noteq> 206) = (\<not> ok r)"
  by (auto simp: ok_def)

lemma respond_Inr:
  assumes "respond e rq url r = Inr resp"
  shows "ok r"
    and "Headers_rejects e ''Content-Disposition''
           (contentDisposition (extractFilename e url)) = None"
    and "res_headers resp =
           corsHeaders (Headers_set (copiedHeaders r) ''Content-Disposition''
                          (contentDisposition (extractFilename e url)))"
  using assms
  by (auto simp: respond_def Let_def ok_206 extractFilename_nonempty
      split: if_splits option.splits)

lemma respond_ok:
  assumes "ok r"
    and "Headers_rejects e ''Content-Disposition''
           (contentDisposition (extractFilename e url)) = None"
  shows "respond e rq url r =
           Inr \<lparr>res_status = (if req_method rq = ''OPTIONS'' then 200 else res_status r),
                res_statusText = (if req_method rq = ''OPTIONS'' then Response_statusText e 200
                                  else res_statusText r),
                res_headers =
                  corsHeaders (Headers_set (copiedHeaders r) ''Content-Disposition''
                                 (contentDisposition (extractFilename e url))),
                res_body = (if req_method rq = ''OPTIONS'' then None else res_body r)\<rparr>"
  using assms by (simp add: respond_def Let_def ok_206 extractFilename_nonempty)

lemma respond_not_ok:
  "\<not> ok r \<Longrightarrow>
     respond e rq url r =
       Inl (Error (''Upstream server responded with '' @ show_nat (res_status r) @ '': ''
                     @ res_statusText r))"
  by (cases "res_status r = 206") (auto simp: respond_def ok_def)

lemma respond_rejected:
  assumes "ok r"
    and "Headers_rejects e ''Content-Disposition''
           (contentDisposition (extractFilename e url)) = Some msg"
  shows "respond e rq url r = Inl (Error msg)"
  using assms by (simp add: respond_def Let_def ok_206 extractFilename_nonempty)

lemma proxyDownload_Inr:
  assumes "proxyDownload e rq url = (Inr resp, evs)"
  shows "\<exists>r. fetchWithRetry e (upstreamRequest rq url) 3 = (Inr r, evs)
           \<and> respond e rq url r = Inr resp"
  using assms
  by (auto simp: proxyDownload_def split: option.splits sum.splits prod.splits)

lemma proxyDownload_response:
  assumes "Request_rejects e (upstreamRequest rq url) = None"
    and "fetchWithRetry e (upstreamRequest rq url) 3 = (Inr r, evs)"
  shows "proxyDownload e rq url = (respond e rq url r, evs)"
  using assms by (simp add: proxyDownload_def)

lemma proxyDownload_events:
  "ev \<in> set (snd (proxyDownload e rq url)) \<Longrightarrow>
     ev = Fetch (upstreamRequest rq url) \<or> (\<exists>n. ev = Sleep n)"
  using fetchLoop_events [of ev e "upstreamRequest rq url" 3 0 Undefined]
  by (auto simp: proxyDownload_def fetchWithRetry_def split: option.splits sum.splits prod.splits)

lemma handleRequest_events:
  assumes "ev \<in> set (snd (handleRequest e request))"
  shows "\<exists>d. target_of e request = Some d
           \<and> (ev = Fetch (upstreamRequest request d) \<or> (\<exists>n. ev = Sleep n))"
proof (cases "target_of e request")
  case None
  then have "snd (handleRequest e request) = []"
    by (auto simp: target_of_def handleRequest_def Let_def split: sum.splits if_splits)
  with assms show ?thesis by simp
next
  case (Some d)
  have "snd (handleRequest e request) = snd (proxyDownload e request d)"
    by (simp add: handleRequest_target [OF Some] split: prod.splits sum.splits)
  with assms Some proxyDownload_events [of ev e request d] show ?thesis by simp
qed


section \<open>The filename\<close>

lemma example_filename:
  "extractFilename (std T up) ''https://a.com/file.zip'' = ''file.zip''"
  by (simp add: platform_defs extractFilename_def no_name_def clean_def invalid_chars_def
      filenameParams_def Let_def)

lemma example_disposition:
  "contentDisposition ''file.zip'' =
     ''attachment; filename='' @ [CHR 0x22] @ ''file.zip'' @ [CHR 0x22]
       @ ''; filename*=UTF-8'' @ [CHR 0x27, CHR 0x27] @ ''file.zip''"
  by (simp add: contentDisposition_def encodeURIComponent_def encode_char_def unreserved_def)

lemma example_header_accepted:
  "Headers_rejects (std T up) ''Content-Disposition''
     (contentDisposition (extractFilename (std T up) ''https://a.com/file.zip'')) = None"
  unfolding example_filename example_disposition by (simp add: std_def)

lemma example_fetch:
  "fetchWithRetry (std T (fails_then 0 r)) rq 3 = (Inr r, [Fetch rq])"
  by (simp add: fetchWithRetry_def fetchLoop.simps std_def fails_then_def)

text \<open>
  C7. \<open>extractFilename\<close> is a function of the URL and of the platform with its clock, so
  a fixed URL at a fixed clock has one result. On the reference platform at any clock
  \<open>T\<close> it returns \<open>report.pdf\<close> for \<open>https://a.com/path/report.pdf\<close>, \<open>movie.mp4\<close> for
  \<open>https://a.com/download?filename=movie.mp4\<close>, and \<open>download_a.com_\<close> followed by \<open>T\<close>
  for \<open>https://a.com/\<close>. The query parameters are scanned in the order \<open>filename\<close>,
  \<open>file\<close>, \<open>name\<close>, \<open>download\<close>, and the first of them whose value is non-empty and
  contains a dot gives the candidate.
\<close>

theorem C7_filename_examples:
  "extractFilename (std T up) ''https://a.com/path/report.pdf'' = ''report.pdf''
   \<and> extractFilename (std T up) ''https://a.com/download?filename=movie.mp4'' = ''movie.mp4''
   \<and> extractFilename (std T up) ''https://a.com/'' = ''download_a.com_'' @ show_nat T
   \<and> scan_params params filenameParams =
       (case filter (\<lambda>param. case map_of params param of
                                None \<Rightarrow> False
                              | Some v \<Rightarrow> v \<noteq> [] \<and> CHR ''.'' \<in> set v)
               [''filename'', ''file'', ''name'', ''download''] of
          [] \<Rightarrow> None
        | param # rest \<Rightarrow> map_of params param)"
proof -
  have a: "extractFilename (std T up) ''https://a.com/path/report.pdf'' = ''report.pdf''"
    by (simp add: platform_defs extractFilename_def no_name_def clean_def invalid_chars_def
        filenameParams_def Let_def)
  have b: "extractFilename (std T up) ''https://a.com/download?filename=movie.mp4'' =
      ''movie.mp4''"
    by (simp add: platform_defs extractFilename_def no_name_def clean_def invalid_chars_def
        filenameParams_def Let_def)
  have c: "extractFilename (std T up) ''https://a.com/'' = ''download_a.com_'' @ show_nat T"
    by (simp add: platform_defs extractFilename_def no_name_def clean_hostname_def
        filenameParams_def Let_def)
  have d: "scan_params params filenameParams =
       (case filter (\<lambda>param. case map_of params param of
                                None \<Rightarrow> False
                              | Some v \<Rightarrow> v \<noteq> [] \<and> CHR ''.'' \<in> set v)
               [''filename'', ''file'', ''name'', ''download''] of
          [] \<Rightarrow> None
        | param # rest \<Rightarrow> map_of params param)"
    by (simp add: filenameParams_def split: option.splits)
  from a b c d show ?thesis
    by blast
qed

theorem C7_filename_examples_witness:
  "extractFilename (std 1700000000123 always_fails) ''https://a.com/'' =
     ''download_a.com_1700000000123''
   \<and> extractFilename (std 0 always_fails)
        ''https://a.com/get?name=x.txt&file=y.bin&filename=noext'' = ''y.bin''"
proof -
  have "extractFilename (std 0 always_fails)
      ''https://a.com/get?name=x.txt&file=y.bin&filename=noext'' = ''y.bin''"
    by (simp add: platform_defs extractFilename_def no_name_def clean_def invalid_chars_def
        filenameParams_def Let_def)
  then show ?thesis
    using C7_filename_examples [of 1700000000123 always_fails]
    by (simp add: show_nat.simps)
qed

text \<open>
  C6, at the input where the code leaves it. The characters \<open>< > : " / \ | ? *\<close> are
  replaced before the name is percent-decoded, so an escaped one comes back: for
  \<open>https://a.com/a%2Fb.txt\<close> the result is \<open>a/b.txt\<close>, with the slash that the cleaning
  was to remove. That URL is the target of the request for the path
  \<open>/https%3A%2F%2Fa.com%2Fa%252Fb.txt\<close>.
\<close>

theorem C6_escaped_separator_survives:
  "extractFilename (std T up) ''https://a.com/a%2Fb.txt'' = ''a/b.txt''
   \<and> CHR ''/'' \<in> set (extractFilename (std T up) ''https://a.com/a%2Fb.txt'')
   \<and> target_of (std T up) (client_request ''GET'' ''https%3A%2F%2Fa.com%2Fa%252Fb.txt'') =
       Some ''https://a.com/a%2Fb.txt''"
proof -
  have name: "extractFilename (std T up) ''https://a.com/a%2Fb.txt'' = ''a/b.txt''"
    by (simp add: platform_defs extractFilename_def no_name_def clean_def invalid_chars_def
        filenameParams_def Let_def)
  have "target_of (std T up) (client_request ''GET'' ''https%3A%2F%2Fa.com%2Fa%252Fb.txt'') =
      Some ''https://a.com/a%2Fb.txt''"
    by (simp add: target_of_def platform_defs example_defs)
  with name show ?thesis
    by simp
qed

text \<open>
  C10. \<open>extractFilename\<close> never returns the empty string: its result either starts with
  \<open>download_\<close> (the two fallbacks; the one of the \<open>catch\<close> is \<open>download_\<close> and the clock)
  or contains a dot. So the guard before \<open>Content-Disposition\<close> is always taken: every
  response that \<open>proxyDownload\<close> returns carries the header, with the attachment value
  built from that filename.
\<close>

theorem C10_content_disposition_always_set:
  "extractFilename e url \<noteq> []
   \<and> (startsWith (extractFilename e url) ''download_''
        \<or> CHR ''.'' \<in> set (extractFilename e url))
   \<and> (\<forall>msg. URL_new e url = Inl msg \<longrightarrow>
          extractFilename e url = ''download_'' @ show_nat (Date_now e))
   \<and> (\<forall>response events. proxyDownload e request url = (Inr response, events) \<longrightarrow>
          Headers_get (res_headers response) ''Content-Disposition'' =
            Some (contentDisposition (extractFilename e url)))"
proof -
  have shape: "startsWith (extractFilename e url) ''download_''
      \<or> CHR ''.'' \<in> set (extractFilename e url)"
    by (auto simp: extractFilename_def Let_def no_name_def startsWith_def
        split: sum.splits option.splits)
  have catch: "extractFilename e url = ''download_'' @ show_nat (Date_now e)"
    if "URL_new e url = Inl msg" for msg
    using that by (simp add: extractFilename_def)
  have header: "Headers_get (res_headers response) ''Content-Disposition'' =
      Some (contentDisposition (extractFilename e url))"
    if "proxyDownload e request url = (Inr response, events)" for response events
  proof -
    from proxyDownload_Inr [OF that] obtain r where "respond e request url r = Inr response"
      by blast
    then have "res_headers response =
        corsHeaders (Headers_set (copiedHeaders r) ''Content-Disposition''
                       (contentDisposition (extractFilename e url)))"
      by (rule respond_Inr)
    then show ?thesis
      by (simp add: corsHeaders_get Headers_get_set) (simp add: lower_def lower_char_def)
  qed
  from extractFilename_nonempty [of e url] shape catch header show ?thesis
    by blast
qed

theorem C10_content_disposition_always_set_witness:
  "(case fst (proxyDownload (std 0 (fails_then 0 (upstream_response 200 ''OK'' [])))
                (client_request ''GET'' ''x'') ''https://a.com/file.zip'') of
      Inl error \<Rightarrow> False
    | Inr response \<Rightarrow>
        Headers_get (res_headers response) ''Content-Disposition'' =
          Some (''attachment; filename='' @ [CHR 0x22] @ ''file.zip'' @ [CHR 0x22]
                  @ ''; filename*=UTF-8'' @ [CHR 0x27, CHR 0x27] @ ''file.zip''))"
proof -
  let ?e = "std 0 (fails_then 0 (upstream_response 200 ''OK'' []))"
  let ?request = "client_request ''GET'' ''x''"
  have "ok (upstream_response 200 ''OK'' [])"
    by (simp add: ok_def upstream_response_def)
  then obtain response where
    run: "proxyDownload ?e ?request ''https://a.com/file.zip'' =
            (Inr response, [Fetch (upstreamRequest ?request ''https://a.com/file.zip'')])"
    using proxyDownload_response [OF example_accepted example_fetch]
      respond_ok [OF _ example_header_accepted]
    by simp
  from C10_content_disposition_always_set [of ?e "''https://a.com/file.zip''" ?request] run
  have "Headers_get (res_headers response) ''Content-Disposition'' =
      Some (contentDisposition (extractFilename ?e ''https://a.com/file.zip''))"
    by blast
  then show ?thesis
    by (simp add: run example_filename example_disposition)
qed


section \<open>Header policy\<close>

lemma lower_relevantHeaders: "lower ` set relevantHeaders = set relevantHeaders"
  by (simp add: relevantHeaders_def lower_def lower_char_def)

lemma lower_importantHeaders: "lower ` set importantHeaders = set importantHeaders"
  by (simp add: importantHeaders_def lower_def lower_char_def)

lemma upstreamHeaders_get:
  "Headers_get (upstreamHeaders request) m =
     (if lower m = ''user-agent'' then Some ''Cloudflare-Download-Link-Stabilizer/1.0''
      else if lower m \<in> set relevantHeaders
      then (case Headers_get (req_headers request) m of
              None \<Rightarrow> None
            | Some v \<Rightarrow> if v \<noteq> [] then Some v else None)
      else None)"
proof -
  have ua: "lower ''User-Agent'' = ''user-agent''"
    by (simp add: lower_def lower_char_def)
  show ?thesis
    by (auto simp: upstreamHeaders_def Headers_get_set copy_headers_get ua
        lower_relevantHeaders Headers_get_nil split: option.splits)
qed

lemma copiedHeaders_get:
  "Headers_get (copiedHeaders r) m =
     (if lower m \<in> set importantHeaders
         \<and> (\<exists>v. Headers_get (res_headers r) m = Some v \<and> v \<noteq> [])
      then Headers_get (res_headers r) m
      else if lower m = ''accept-ranges'' then Some ''bytes'' else None)"
proof -
  have ar: "lower ''accept-ranges'' = ''accept-ranges''"
    by (simp add: lower_def lower_char_def)
  have mem: "''accept-ranges'' \<in> set importantHeaders"
    by (simp add: importantHeaders_def)
  have same: "Headers_get (res_headers r) m = Headers_get (res_headers r) ''accept-ranges''"
    if "lower m = ''accept-ranges''"
    using that by (intro Headers_get_lower) (simp add: ar)
  show ?thesis
    using mem same
    by (auto simp: copiedHeaders_def Let_def Headers_has_get Headers_get_set copy_headers_get
        lower_importantHeaders Headers_get_nil ar)
qed

text \<open>
  C8. The headers of the upstream request, read by any name \<open>m\<close> without regard to case:
  \<open>User-Agent\<close> is the fixed string of the proxy; any other name of the whitelist has
  the value of the inbound request if that value is present and non-empty; every other
  name is absent. Every fetch of a run of the handler carries exactly these headers.
\<close>

theorem C8_upstream_request_headers:
  "(\<forall>m. Headers_get (upstreamHeaders request) m =
          (if lower m = ''user-agent'' then Some ''Cloudflare-Download-Link-Stabilizer/1.0''
           else if lower m \<in> {''range'', ''accept'', ''accept-encoding'', ''cache-control'',
                               ''if-modified-since'', ''if-none-match''}
           then (case Headers_get (req_headers request) m of
                   None \<Rightarrow> None
                 | Some v \<Rightarrow> if v \<noteq> [] then Some v else None)
           else None))
   \<and> (\<forall>r. Fetch r \<in> set (snd (handleRequest e request)) \<longrightarrow>
          req_headers r = upstreamHeaders request)"
proof -
  have get: "Headers_get (upstreamHeaders request) m =
          (if lower m = ''user-agent'' then Some ''Cloudflare-Download-Link-Stabilizer/1.0''
           else if lower m \<in> {''range'', ''accept'', ''accept-encoding'', ''cache-control'',
                               ''if-modified-since'', ''if-none-match''}
           then (case Headers_get (req_headers request) m of
                   None \<Rightarrow> None
                 | Some v \<Rightarrow> if v \<noteq> [] then Some v else None)
           else None)" for m
    by (simp add: upstreamHeaders_get) (simp add: relevantHeaders_def)
  have sent: "req_headers r = upstreamHeaders request"
    if "Fetch r \<in> set (snd (handleRequest e request))" for r
    using handleRequest_events [OF that] by (auto simp: upstreamRequest_def)
  from get sent show ?thesis
    by blast
qed

theorem C8_upstream_request_headers_witness:
  "Headers_get (upstreamHeaders (client_request ''GET'' ''x'')) ''Range'' = Some ''bytes=0-99''
   \<and> Headers_get (upstreamHeaders (client_request ''GET'' ''x'')) ''user-agent'' =
       Some ''Cloudflare-Download-Link-Stabilizer/1.0''
   \<and> Headers_get (upstreamHeaders (client_request ''GET'' ''x'')) ''Accept'' = None
   \<and> Headers_get (upstreamHeaders (client_request ''GET'' ''x'')) ''Cookie'' = None"
proof -
  have low: "lower ''Range'' = ''range''" "lower ''user-agent'' = ''user-agent''"
    "lower ''Accept'' = ''accept''" "lower ''Cookie'' = ''cookie''"
    by (simp_all add: lower_def lower_char_def)
  have inbound: "Headers_get (req_headers (client_request ''GET'' ''x'')) ''Range'' =
      Some ''bytes=0-99''"
    "Headers_get (req_headers (client_request ''GET'' ''x'')) ''Accept'' = Some []"
    by (simp_all add: client_request_def Headers_get_def Headers_values_def lower_def
        lower_char_def)
  from C8_upstream_request_headers [of "client_request ''GET'' ''x''" "std 0 always_fails"]
  show ?thesis
    by (simp add: low inbound)
qed

text \<open>
  C9, as the code has it. A listed header is taken over only when its upstream value is
  non-empty (the guard \<open>if (value)\<close>): in every response that \<open>proxyDownload\<close> returns
  for the upstream response \<open>r\<close>, each header among \<open>content-type\<close>, \<open>content-length\<close>,
  \<open>content-range\<close>, \<open>accept-ranges\<close>, \<open>last-modified\<close>, \<open>etag\<close>, \<open>cache-control\<close>,
  \<open>expires\<close> that \<open>r\<close> has with a non-empty value has that value unchanged, and
  \<open>accept-ranges\<close> is \<open>bytes\<close> when \<open>r\<close> has it absent or empty.
\<close>

theorem C9_response_headers_passthrough:
  assumes "proxyDownload e request url = (Inr response, events)"
    and "fetchWithRetry e (upstreamRequest request url) 3 = (Inr r, events')"
  shows "(\<forall>h v. lower h \<in> {''content-type'', ''content-length'', ''content-range'',
                           ''accept-ranges'', ''last-modified'', ''etag'', ''cache-control'',
                           ''expires''}
                \<and> Headers_get (res_headers r) h = Some v \<and> v \<noteq> [] \<longrightarrow>
              Headers_get (res_headers response) h = Some v)
         \<and> (Headers_get (res_headers r) ''accept-ranges'' = None
              \<or> Headers_get (res_headers r) ''accept-ranges'' = Some [] \<longrightarrow>
            Headers_get (res_headers response) ''accept-ranges'' = Some ''bytes'')"
proof -
  from proxyDownload_Inr [OF assms(1)] assms(2)
  have "respond e request url r = Inr response"
    by auto
  then have hs: "res_headers response =
      corsHeaders (Headers_set (copiedHeaders r) ''Content-Disposition''
                     (contentDisposition (extractFilename e url)))"
    by (rule respond_Inr)
  have cd: "lower ''Content-Disposition'' = ''content-disposition''"
    and ar: "lower ''accept-ranges'' = ''accept-ranges''"
    by (simp_all add: lower_def lower_char_def)
  have kept: "Headers_get (res_headers response) h = Some v"
    if "lower h \<in> {''content-type'', ''content-length'', ''content-range'',
                     ''accept-ranges'', ''last-modified'', ''etag'', ''cache-control'',
                     ''expires''}"
      and "Headers_get (res_headers r) h = Some v" and "v \<noteq> []" for h v
    using that
    by (auto simp: hs corsHeaders_get Headers_get_set cd copiedHeaders_get importantHeaders_def)
  have forced: "Headers_get (res_headers response) ''accept-ranges'' = Some ''bytes''"
    if "Headers_get (res_headers r) ''accept-ranges'' = None
        \<or> Headers_get (res_headers r) ''accept-ranges'' = Some []"
    using that
    by (auto simp: hs corsHeaders_get Headers_get_set cd ar copiedHeaders_get)
  from kept forced show ?thesis
    by blast
qed


lemma example_run:
  assumes "ok r"
  shows "proxyDownload (std T (fails_then 0 r)) request ''https://a.com/file.zip'' =
           (Inr \<lparr>res_status = (if req_method request = ''OPTIONS'' then 200 else res_status r),
                 res_statusText =
                   (if req_method request = ''OPTIONS'' then [] else res_statusText r),
                 res_headers =
                   corsHeaders (Headers_set (copiedHeaders r) ''Content-Disposition''
                                  (contentDisposition ''file.zip'')),
                 res_body = (if req_method request = ''OPTIONS'' then None else res_body r)\<rparr>,
            [Fetch (upstreamRequest request ''https://a.com/file.zip'')])"
  using proxyDownload_response [OF example_accepted example_fetch, of T r request]
    respond_ok [OF assms example_header_accepted, of T "fails_then 0 r" request]
  by (simp add: example_filename) (simp add: std_def)

theorem C9_response_headers_passthrough_witness:
  "(case fst (proxyDownload
                (std 0 (fails_then 0
                   (upstream_response 206 ''Partial Content''
                      [(''Content-Range'', ''bytes 0-99/1000''), (''ETag'', [])])))
                (client_request ''GET'' ''x'') ''https://a.com/file.zip'') of
      Inl error \<Rightarrow> False
    | Inr response \<Rightarrow>
        Headers_get (res_headers response) ''Content-Range'' = Some ''bytes 0-99/1000''
        \<and> Headers_get (res_headers response) ''accept-ranges'' = Some ''bytes'')"
proof -
  let ?up = "upstream_response 206 ''Partial Content''
               [(''Content-Range'', ''bytes 0-99/1000''), (''ETag'', [])]"
  let ?e = "std 0 (fails_then 0 ?up)"
  let ?request = "client_request ''GET'' ''x''"
  have "ok ?up"
    by (simp add: ok_def upstream_response_def)
  from example_run [OF this, of 0 ?request] obtain response where
    run: "proxyDownload ?e ?request ''https://a.com/file.zip'' =
            (Inr response, [Fetch (upstreamRequest ?request ''https://a.com/file.zip'')])"
    by blast
  have upstream: "lower ''Content-Range'' = ''content-range''"
    "Headers_get (res_headers ?up) ''Content-Range'' = Some ''bytes 0-99/1000''"
    "Headers_get (res_headers ?up) ''accept-ranges'' = None"
    by (simp_all add: upstream_response_def Headers_get_def Headers_values_def lower_def
        lower_char_def)
  from C9_response_headers_passthrough [OF run example_fetch] upstream
  have "Headers_get (res_headers response) ''Content-Range'' = Some ''bytes 0-99/1000''
      \<and> Headers_get (res_headers response) ''accept-ranges'' = Some ''bytes''"
    by simp
  then show ?thesis
    by (simp add: run)
qed

text \<open>
  C9 as the claim words it fails where a listed header is present upstream with an empty
  value: the upstream response has an \<open>ETag\<close> header, and the response of the proxy has
  none.
\<close>

theorem C9_empty_header_dropped:
  "Headers_has
     (res_headers (upstream_response 206 ''Partial Content''
                     [(''Content-Range'', ''bytes 0-99/1000''), (''ETag'', [])])) ''etag''
   \<and> (case fst (proxyDownload
                   (std 0 (fails_then 0
                      (upstream_response 206 ''Partial Content''
                         [(''Content-Range'', ''bytes 0-99/1000''), (''ETag'', [])])))
                   (client_request ''GET'' ''x'') ''https://a.com/file.zip'') of
         Inl error \<Rightarrow> False
       | Inr response \<Rightarrow> \<not> Headers_has (res_headers response) ''etag'')"
proof -
  let ?up = "upstream_response 206 ''Partial Content''
               [(''Content-Range'', ''bytes 0-99/1000''), (''ETag'', [])]"
  have "ok ?up"
    by (simp add: ok_def upstream_response_def)
  note run = example_run [OF this, of 0 "client_request ''GET'' ''x''"]
  have low: "lower ''etag'' = ''etag''" "lower ''Content-Disposition'' = ''content-disposition''"
    by (simp_all add: lower_def lower_char_def)
  have present: "Headers_has (res_headers ?up) ''etag''"
    and empty: "Headers_get (res_headers ?up) ''etag'' = Some []"
    by (simp_all add: upstream_response_def Headers_has_def Headers_get_def Headers_values_def
        lower_def lower_char_def)
  have "Headers_get (corsHeaders (Headers_set (copiedHeaders ?up) ''Content-Disposition''
                                    (contentDisposition ''file.zip''))) ''etag'' = None"
    by (simp add: corsHeaders_get Headers_get_set copiedHeaders_get low empty)
  with present show ?thesis
    by (simp add: run Headers_has_get)
qed

section \<open>OPTIONS\<close>





section \<open>Upstream status\<close>

text \<open>
  C2, as the code has it. For a request other than \<open>OPTIONS\<close> that reaches the upstream
  fetch and obtains the response \<open>r\<close>: if the status of \<open>r\<close> is from 200 to 299 (206 is
  one of them) and the platform accepts the \<open>Content-Disposition\<close> value, the response of
  the proxy has the status, the status text and the body of \<open>r\<close>; for any other status
  the proxy answers 500 with the plain-text body \<open>Proxy error: Upstream server responded
  with <status>: <statusText>\<close> and with the status text that the platform gives a
  response constructed without one (the empty string in the Fetch standard). Hence the
  status and status text of the proxy's response are those of the upstream exactly when
  the upstream status is from 200 to 299, or the upstream itself answered 500 with that
  default status text.
\<close>

theorem C2_upstream_status_mapping:
  assumes "req_method request \<noteq> ''OPTIONS''"
    and "target_of e request = Some d"
    and "Request_rejects e (upstreamRequest request d) = None"
    and "fetchWithRetry e (upstreamRequest request d) 3 = (Inr r, events)"
  shows "((200 \<le> res_status r \<and> res_status r \<le> 299 \<or> res_status r = 206)
            \<and> Headers_rejects e ''Content-Disposition''
                 (contentDisposition (extractFilename e d)) = None \<longrightarrow>
          (\<exists>response. handleRequest e request = (Inr response, events)
             \<and> res_status response = res_status r
             \<and> res_statusText response = res_statusText r
             \<and> res_body response = res_body r))
         \<and> (\<not> (200 \<le> res_status r \<and> res_status r \<le> 299 \<or> res_status r = 206) \<longrightarrow>
            handleRequest e request =
              (Inr (text_response e
                      (''Proxy error: Upstream server responded with ''
                         @ show_nat (res_status r) @ '': '' @ res_statusText r) 500),
               events))
         \<and> (Headers_rejects e ''Content-Disposition''
               (contentDisposition (extractFilename e d)) = None \<longrightarrow>
            (\<exists>response. handleRequest e request = (Inr response, events)
               \<and> ((res_status response = res_status r
                     \<and> res_statusText response = res_statusText r)
                    = ((200 \<le> res_status r \<and> res_status r \<le> 299 \<or> res_status r = 206)
                       \<or> (res_status r = 500
                           \<and> res_statusText r = Response_statusText e 500)))))"
proof -
  have range: "(200 \<le> res_status r \<and> res_status r \<le> 299 \<or> res_status r = 206) = ok r"
    by (auto simp: ok_def)
  have run: "handleRequest e request =
      (case respond e request d r of
         Inr response \<Rightarrow> (Inr response, events)
       | Inl error \<Rightarrow> (caught e error, events))"
    by (simp add: handleRequest_target [OF assms(2)]
        proxyDownload_response [OF assms(3) assms(4)] split: sum.splits)
  have relayed: "\<exists>response. handleRequest e request = (Inr response, events)
      \<and> res_status response = res_status r
      \<and> res_statusText response = res_statusText r
      \<and> res_body response = res_body r"
    if "ok r" and "Headers_rejects e ''Content-Disposition''
                     (contentDisposition (extractFilename e d)) = None"
    using assms(1) by (simp add: run respond_ok [OF that])
  have failed: "handleRequest e request =
      (Inr (text_response e
              (''Proxy error: Upstream server responded with ''
                 @ show_nat (res_status r) @ '': '' @ res_statusText r) 500),
       events)"
    if "\<not> ok r"
    by (simp add: run respond_not_ok [OF that] caught_def)
  have "\<exists>response. handleRequest e request = (Inr response, events)
      \<and> ((res_status response = res_status r \<and> res_statusText response = res_statusText r)
           = (ok r \<or> (res_status r = 500
                       \<and> res_statusText r = Response_statusText e 500)))"
    if acc: "Headers_rejects e ''Content-Disposition''
               (contentDisposition (extractFilename e d)) = None"
  proof (cases "ok r")
    case True
    with relayed [OF True acc] show ?thesis
      by auto
  next
    case False
    then show ?thesis
      by (auto simp: failed [OF False] text_response_def)
  qed
  with relayed failed show ?thesis
    unfolding range by blast
qed

theorem C2_upstream_status_mapping_witness:
  "handleRequest (std 0 (fails_then 0 (upstream_response 404 ''Not Found'' [])))
     (client_request ''GET'' ''https%3A%2F%2Fa.com%2Ffile.zip'') =
     (Inr (text_response (std 0 always_fails)
             ''Proxy error: Upstream server responded with 404: Not Found'' 500),
      [Fetch (upstreamRequest (client_request ''GET'' ''https%3A%2F%2Fa.com%2Ffile.zip'')
                ''https://a.com/file.zip'')])
   \<and> (case fst (handleRequest (std 0 (fails_then 0 (upstream_response 206 ''Partial Content'' [])))
                   (client_request ''GET'' ''https%3A%2F%2Fa.com%2Ffile.zip'')) of
         Inl error \<Rightarrow> False
       | Inr response \<Rightarrow>
           res_status response = 206 \<and> res_statusText response = ''Partial Content''
           \<and> res_body response = Some ''data'')"
proof -
  let ?request = "client_request ''GET'' ''https%3A%2F%2Fa.com%2Ffile.zip''"
  let ?bad = "upstream_response 404 ''Not Found'' []"
  let ?good = "upstream_response 206 ''Partial Content'' []"
  have m: "req_method ?request \<noteq> ''OPTIONS''"
    by (simp add: client_request_def)
  have "show_nat 404 = ''404''"
    by (simp add: show_nat.simps)
  with C2_upstream_status_mapping
    [OF m example_target [of 0 "fails_then 0 ?bad"] example_accepted [of 0 "fails_then 0 ?bad"]
        example_fetch [of 0 ?bad]]
  have a: "handleRequest (std 0 (fails_then 0 ?bad)) ?request =
     (Inr (text_response (std 0 always_fails)
             ''Proxy error: Upstream server responded with 404: Not Found'' 500),
      [Fetch (upstreamRequest ?request ''https://a.com/file.zip'')])"
    by (simp add: upstream_response_def text_response_std)
  from C2_upstream_status_mapping
    [OF m example_target [of 0 "fails_then 0 ?good"] example_accepted [of 0 "fails_then 0 ?good"]
        example_fetch [of 0 ?good]]
    example_header_accepted [of 0 "fails_then 0 ?good"]
  have b: "case fst (handleRequest (std 0 (fails_then 0 ?good)) ?request) of
         Inl error \<Rightarrow> False
       | Inr response \<Rightarrow>
           res_status response = 206 \<and> res_statusText response = ''Partial Content''
           \<and> res_body response = Some ''data''"
    by (auto simp: upstream_response_def)
  from a b show ?thesis
    by blast
qed

text \<open>
  C2 as the claim words it fails in both directions. On the reference platform, an
  upstream that answers 500 with an empty status text gets a response of the proxy with
  that same status and status text, though 500 is not from 200 to 299. And an upstream that answers 200 for the target
  \<open>https://a.com/a%0Ab.txt\<close> gets a response 500: the filename has a line feed, which the
  platform refuses in a header value.
\<close>

theorem C2_status_not_iff:
  "(case fst (handleRequest (std 0 (fails_then 0 (upstream_response 500 [] [])))
                (client_request ''GET'' ''https%3A%2F%2Fa.com%2Ffile.zip'')) of
      Inl error \<Rightarrow> False
    | Inr response \<Rightarrow>
        res_status response = res_status (upstream_response 500 [] [])
        \<and> res_statusText response = res_statusText (upstream_response 500 [] []))
   \<and> \<not> (200 \<le> res_status (upstream_response 500 [] [])
          \<and> res_status (upstream_response 500 [] []) \<le> 299
          \<or> res_status (upstream_response 500 [] []) = 206)
   \<and> handleRequest (std 0 (fails_then 0 (upstream_response 200 ''OK'' [])))
       (client_request ''GET'' ''https%3A%2F%2Fa.com%2Fa%250Ab.txt'') =
       (Inr (text_response (std 0 always_fails) ''Proxy error: Invalid header value.'' 500),
        [Fetch (upstreamRequest (client_request ''GET'' ''https%3A%2F%2Fa.com%2Fa%250Ab.txt'')
                  ''https://a.com/a%0Ab.txt'')])"
proof -
  let ?request = "client_request ''GET'' ''https%3A%2F%2Fa.com%2Ffile.zip''"
  let ?up = "upstream_response 500 [] []"
  have no: "\<not> ok ?up"
    by (simp add: ok_def upstream_response_def)
  have a: "handleRequest (std 0 (fails_then 0 ?up)) ?request =
      (Inr (text_response (std 0 always_fails)
              (''Proxy error: Upstream server responded with '' @ show_nat (res_status ?up)
                 @ '': '' @ res_statusText ?up) 500),
       [Fetch (upstreamRequest ?request ''https://a.com/file.zip'')])"
    by (simp add: handleRequest_target [OF example_target]
        proxyDownload_response [OF example_accepted example_fetch] respond_not_ok [OF no]
        caught_def text_response_std)
  let ?request' = "client_request ''GET'' ''https%3A%2F%2Fa.com%2Fa%250Ab.txt''"
  let ?ok = "upstream_response 200 ''OK'' []"
  let ?e = "std 0 (fails_then 0 ?ok)"
  have target: "target_of ?e ?request' = Some ''https://a.com/a%0Ab.txt''"
    by (simp add: target_of_def platform_defs example_defs)
  have accepted: "Request_rejects ?e (upstreamRequest ?request' ''https://a.com/a%0Ab.txt'') = None"
    by (simp add: upstreamRequest_def platform_defs)
  have name: "extractFilename ?e ''https://a.com/a%0Ab.txt'' = [CHR ''a'', CHR 0x0A] @ ''b.txt''"
    by (simp add: platform_defs extractFilename_def no_name_def clean_def invalid_chars_def
        filenameParams_def Let_def)
  have rejected: "Headers_rejects ?e ''Content-Disposition''
      (contentDisposition (extractFilename ?e ''https://a.com/a%0Ab.txt'')) =
      Some ''Invalid header value.''"
    unfolding name by (simp add: std_def contentDisposition_def)
  have okr: "ok ?ok"
    by (simp add: ok_def upstream_response_def)
  have b: "handleRequest ?e ?request' =
      (Inr (text_response (std 0 always_fails) ''Proxy error: Invalid header value.'' 500),
       [Fetch (upstreamRequest ?request' ''https://a.com/a%0Ab.txt'')])"
    by (simp add: handleRequest_target [OF target]
        proxyDownload_response [OF accepted example_fetch] respond_rejected [OF okr rejected]
        caught_def text_response_std)
  from a b show ?thesis
    by (simp add: text_response_std upstream_response_def)
qed

section \<open>Validation\<close>

text \<open>
  C5, as the code has it. The path \<open>/\<close> is served first: a request for exactly \<open>/\<close>, the
  path with an empty segment that a request URL can have, gets the interface page with
  status 200. For any other path: if nothing follows the first character the answer is
  400 \<open>No URL provided\<close>; if what follows fails percent-decoding the answer is 400
  \<open>Invalid URL encoding\<close>; if it decodes to a string that starts with neither
  \<open>http://\<close> nor \<open>https://\<close> the answer is 400 with the message on the scheme. In all
  four cases the run has no event, so no fetch attempt is made.
\<close>

theorem C5_validation_before_fetch:
  assumes "URL_new e (req_url request) = Inr u"
  shows "(pathname u = ''/'' \<longrightarrow>
            handleRequest e request =
              (Inr \<lparr>res_status = 200, res_statusText = Response_statusText e 200,
                    res_headers = [(''Content-Type'', ''text/html'')],
                    res_body = Some (interface_html e)\<rparr>, []))
         \<and> (pathname u \<noteq> ''/'' \<and> drop 1 (pathname u) = [] \<longrightarrow>
            handleRequest e request = (Inr (text_response e ''No URL provided'' 400), []))
         \<and> (\<forall>msg. pathname u \<noteq> ''/'' \<and> drop 1 (pathname u) \<noteq> []
                \<and> decodeURIComponent e (drop 1 (pathname u)) = Inl msg \<longrightarrow>
              handleRequest e request =
                (Inr (text_response e ''Invalid URL encoding'' 400), []))
         \<and> (\<forall>decodedUrl. pathname u \<noteq> ''/'' \<and> drop 1 (pathname u) \<noteq> []
                \<and> decodeURIComponent e (drop 1 (pathname u)) = Inr decodedUrl
                \<and> \<not> startsWith decodedUrl ''http://''
                \<and> \<not> startsWith decodedUrl ''https://'' \<longrightarrow>
              handleRequest e request =
                (Inr (text_response e
                        ''Invalid URL - must start with http:// or https://'' 400),
                 []))
         \<and> (pathname u = ''/'' \<or> drop 1 (pathname u) = []
              \<or> (\<exists>msg. decodeURIComponent e (drop 1 (pathname u)) = Inl msg)
              \<or> (\<exists>decodedUrl. decodeURIComponent e (drop 1 (pathname u)) = Inr decodedUrl
                    \<and> \<not> startsWith decodedUrl ''http://''
                    \<and> \<not> startsWith decodedUrl ''https://'') \<longrightarrow>
            fetches (snd (handleRequest e request)) = 0)"
  using assms by (auto simp: handleRequest_def Let_def fetches_def)

theorem C5_validation_before_fetch_witness:
  "handleRequest (std 0 always_fails) (client_request ''GET'' ''ftp%3A%2F%2Fhost%2Ffile'') =
     (Inr (text_response (std 0 always_fails)
             ''Invalid URL - must start with http:// or https://'' 400), [])
   \<and> handleRequest (std 0 always_fails) (client_request ''GET'' ''https%3A%2F%2Fa.com%2F%E0%A4%A'') =
       (Inr (text_response (std 0 always_fails) ''Invalid URL encoding'' 400), [])
   \<and> handleRequest
       ((std 0 always_fails)
          \<lparr>URL_new := \<lambda>s. Inr \<lparr>pathname = [], hostname = ''worker.example'',
                                  searchParams = []\<rparr>\<rparr>)
       (client_request ''GET'' []) =
       (Inr (text_response (std 0 always_fails) ''No URL provided'' 400), [])"
proof -
  let ?e = "std 0 always_fails"
  have parse: "URL_new ?e (req_url (client_request ''GET'' ''ftp%3A%2F%2Fhost%2Ffile'')) =
      Inr \<lparr>pathname = ''/ftp%3A%2F%2Fhost%2Ffile'', hostname = ''worker.example'',
            searchParams = []\<rparr>"
    by (simp add: platform_defs example_defs)
  have dec: "decodeURIComponent ?e ''ftp%3A%2F%2Fhost%2Ffile'' = Inr ''ftp://host/file''"
    by (simp add: platform_defs)
  have a: "handleRequest ?e (client_request ''GET'' ''ftp%3A%2F%2Fhost%2Ffile'') =
     (Inr (text_response (std 0 always_fails)
             ''Invalid URL - must start with http:// or https://'' 400), [])"
    using C5_validation_before_fetch [OF parse] dec by (simp add: startsWith_def)
  have parse': "URL_new ?e (req_url (client_request ''GET'' ''https%3A%2F%2Fa.com%2F%E0%A4%A'')) =
      Inr \<lparr>pathname = ''/https%3A%2F%2Fa.com%2F%E0%A4%A'', hostname = ''worker.example'',
            searchParams = []\<rparr>"
    by (simp add: platform_defs example_defs)
  have dec': "decodeURIComponent ?e ''https%3A%2F%2Fa.com%2F%E0%A4%A'' = Inl ''URI malformed''"
    by (simp add: platform_defs)
  have b: "handleRequest ?e (client_request ''GET'' ''https%3A%2F%2Fa.com%2F%E0%A4%A'') =
       (Inr (text_response (std 0 always_fails) ''Invalid URL encoding'' 400), [])"
    using C5_validation_before_fetch [OF parse'] dec' by simp
  let ?e' = "?e\<lparr>URL_new := \<lambda>s. Inr \<lparr>pathname = [], hostname = ''worker.example'',
                                          searchParams = []\<rparr>\<rparr>"
  have parse'': "URL_new ?e' (req_url (client_request ''GET'' [])) =
      Inr \<lparr>pathname = [], hostname = ''worker.example'', searchParams = []\<rparr>"
    by simp
  have c: "handleRequest ?e' (client_request ''GET'' []) =
      (Inr (text_response (std 0 always_fails) ''No URL provided'' 400), [])"
    using C5_validation_before_fetch [OF parse'']
    by (simp add: text_response_def std_def)
  from a b c show ?thesis
    by blast
qed

text \<open>
  C5 as the claim words it fails at the request for \<open>/\<close>: its path segment is empty, and
  the answer is the interface page with status 200, not 400.
\<close>

theorem C5_root_is_interface:
  "(case URL_new (std 0 always_fails) (req_url (client_request ''GET'' [])) of
      Inl msg \<Rightarrow> False
    | Inr u \<Rightarrow> drop 1 (pathname u) = [])
   \<and> handleRequest (std 0 always_fails) (client_request ''GET'' []) =
       (Inr \<lparr>res_status = 200, res_statusText = [],
             res_headers = [(''Content-Type'', ''text/html'')],
             res_body = Some (interface_html (std 0 always_fails))\<rparr>, [])"
  by (simp add: handleRequest_def platform_defs example_defs)


end
